theory Spec2Isabelle
  imports Main "HOL-Library.Word"
begin

section \<open>JavaScript strings\<close>

text \<open>
  A JavaScript string is a sequence of UTF-16 code units. String literals of the source
  are written with \<open>js\<close>; the few code units outside ASCII (the accented letters of
  the Spanish messages) are written as numbers.
\<close>

type_synonym jsstring = "16 word list"

definition js :: "string \<Rightarrow> jsstring" where
  "js s = map of_char s"

text \<open>\<open>Array.prototype.join\<close> on an array of strings.\<close>

fun join :: "jsstring \<Rightarrow> jsstring list \<Rightarrow> jsstring" where
  "join sep [] = []"
| "join sep [x] = x"
| "join sep (x # y # ys) = x @ sep @ join sep (y # ys)"

text \<open>
  The decimal text that a template literal produces for a non-negative integer. The
  numbers printed by the handlers are array lengths, indices and row counts, all far
  below \<open>2^53\<close>, where the arithmetic of JavaScript numbers is exact.
\<close>

definition digit :: "nat \<Rightarrow> 16 word" where
  "digit d = 0x30 + of_nat d"

function digits :: "nat \<Rightarrow> jsstring" where
  "digits n = (if n < 10 then [digit n] else digits (n div 10) @ [digit (n mod 10)])"
  by pat_completeness auto
termination
  by (relation "measure id") auto

declare digits.simps [simp del]

text \<open>Reading a decimal numeral back, used to say which number a placeholder carries.\<close>

definition decimal_value :: "jsstring \<Rightarrow> nat" where
  "decimal_value s = foldl (\<lambda>a c. 10 * a + unat (c - 0x30)) 0 s"

section \<open>Dialect utilities of \<open>mcp_server.js\<close>\<close>

text \<open>
  \<open>db_type\<close> is read from the environment. The constructor of \<open>QueryRunner\<close> accepts
  \<open>'mysql'\<close>, \<open>'pg'\<close> and \<open>'postgresql'\<close> and throws on anything else, and every
  later test is \<open>db_type === 'mysql'\<close>, so two cases remain.
\<close>

datatype dialect = MySQL | Postgres

definition quoteIdent :: "dialect \<Rightarrow> jsstring \<Rightarrow> jsstring" where
  "quoteIdent db_type ident =
     (if db_type = MySQL then [0x60] @ ident @ [0x60] else [0x22] @ ident @ [0x22])"

text \<open>
  \<open>Array(count).fill('?')\<close> on MySQL, and
  \<open>Array.from({ length: count }, (_, i) => `$${i + 1 + offset}`)\<close> otherwise, as the
  handlers call it: \<open>count\<close> and \<open>offset\<close> are lengths of arrays, so the array can be
  built and the sum \<open>i + 1 + offset\<close> is exact.
\<close>

definition makePlaceholders :: "dialect \<Rightarrow> nat \<Rightarrow> nat \<Rightarrow> jsstring list" where
  "makePlaceholders db_type count offset =
     (if db_type = MySQL then replicate count (js ''?'')
      else map (\<lambda>i. js ''$'' @ digits (i + 1 + offset)) [0..<count])"

text \<open>
  The same function on any two non-negative integers that are JavaScript numbers, as
  ECMAScript defines it (memory is not modelled). Outside the range of array lengths
  two things change.

  \<^item> \<open>Array(count)\<close> and \<open>Array.from({ length: count }, ...)\<close> both construct an array of
    length \<open>count\<close>, and that throws a \<open>RangeError\<close> once \<open>count\<close> exceeds \<open>2^32 - 1\<close>; the
    text is the one of V8.

  \<^item> \<open>i + 1 + offset\<close> is a sum of doubles. \<open>i + 1\<close> is exact; its sum with \<open>offset\<close> is the
    exact sum rounded to the nearest double, a tie going to the even significand. Every
    integer up to \<open>2^53\<close> is a double; from there to \<open>2^54\<close> the doubles are the even
    integers, and the template prints such a double with all its digits.

  \<open>round_to_double m\<close> is that rounding of an exact sum \<open>m\<close> below \<open>2^54\<close>, and
  \<open>number_text large m\<close> is what the template prints for the sum. What the runtime
  prints for an exact sum of \<open>2^54\<close> or more (the shortest numeral that reads back as the
  rounded sum, in exponent form from \<open>10^21\<close>, or \<open>Infinity\<close>) is the parameter \<open>large\<close>.
  \<open>offset\<close> is the number that was passed, itself a double.
\<close>

definition round_to_double :: "nat \<Rightarrow> nat" where
  "round_to_double m =
     (if m \<le> 2 ^ 53 \<or> even m then m else if even (m div 2) then m - 1 else m + 1)"

definition number_text :: "(nat \<Rightarrow> jsstring) \<Rightarrow> nat \<Rightarrow> jsstring" where
  "number_text large m = (if m < 2 ^ 54 then digits (round_to_double m) else large m)"

definition makePlaceholders_number ::
  "(nat \<Rightarrow> jsstring) \<Rightarrow> dialect \<Rightarrow> nat \<Rightarrow> nat \<Rightarrow> jsstring + jsstring list" where
  "makePlaceholders_number large db_type count offset =
     (if 2 ^ 32 \<le> count then Inl (js ''Invalid array length'')
      else if db_type = MySQL then Inr (replicate count (js ''?''))
      else Inr (map (\<lambda>i. js ''$'' @ number_text large (i + 1 + offset)) [0..<count]))"

text \<open>The number written after the dollar sign of a numbered placeholder.\<close>

definition placeholder_number :: "jsstring \<Rightarrow> nat" where
  "placeholder_number tok = decimal_value (tl tok)"

section \<open>Whitespace and the read-only pattern\<close>

text \<open>
  The code units that ECMAScript calls WhiteSpace or LineTerminator. The same set is
  removed by \<open>String.prototype.trim\<close> and matched by \<open>\s\<close> in a regular expression.
\<close>

definition is_ws :: "16 word \<Rightarrow> bool" where
  "is_ws c = (c \<in> {0x09, 0x0A, 0x0B, 0x0C, 0x0D, 0x20, 0xA0, 0x1680,
     0x2000, 0x2001, 0x2002, 0x2003, 0x2004, 0x2005, 0x2006, 0x2007, 0x2008, 0x2009, 0x200A,
     0x2028, 0x2029, 0x202F, 0x205F, 0x3000, 0xFEFF})"

definition trim :: "jsstring \<Rightarrow> jsstring" where
  "trim s = rev (dropWhile is_ws (rev (dropWhile is_ws s)))"

text \<open>
  Case folding of a regular expression with the flag \<open>i\<close> and without the flag \<open>u\<close>:
  a code unit is compared through its upper case, and a code unit of 128 or more is never
  folded to one below 128. Against the ASCII letters of a pattern this leaves exactly
  the two ASCII cases of each letter, which is what \<open>canonicalize\<close> compares.
\<close>

definition canonicalize :: "16 word \<Rightarrow> 16 word" where
  "canonicalize c = (if 0x61 \<le> c \<and> c \<le> 0x7A then c - 0x20 else c)"

text \<open>A literal pattern anchored at the start of the input, compared case-insensitively.\<close>

fun match_ci :: "jsstring \<Rightarrow> jsstring \<Rightarrow> bool" where
  "match_ci [] t = True"
| "match_ci (p # ps) [] = False"
| "match_ci (p # ps) (c # cs) = (canonicalize p = canonicalize c \<and> match_ci ps cs)"

text \<open>\<open>/^select/i.test(t)\<close>, the test of the handler.\<close>

definition re_select_i :: "jsstring \<Rightarrow> bool" where
  "re_select_i t = match_ci (js ''select'') t"

text \<open>
  The pattern of the specification, \<open>^\s*select\<close> with the flag \<open>i\<close>, on the untrimmed
  input: some run of whitespace, then the word.
\<close>

fun spec_select_pattern :: "jsstring \<Rightarrow> bool" where
  "spec_select_pattern [] = re_select_i []"
| "spec_select_pattern (c # cs) = (re_select_i (c # cs) \<or> (is_ws c \<and> spec_select_pattern cs))"

section \<open>Values, objects and the connection pool\<close>

text \<open>
  A JavaScript value is \<open>undefined\<close>, a string, or something else (a number, a boolean,
  \<open>null\<close>, ...) that the server only passes on. An object is the list of its entries
  in the order in which \<open>Object.keys\<close> enumerates them; its keys are distinct.
  \<open>obj[k]\<close> is looked up among these entries and is \<open>undefined\<close> for any other key:
  the objects are rows and parsed records, and the keys asked for are column names, not
  names of members of \<open>Object.prototype\<close>.
\<close>

datatype 'a jsval = JUndefined | JString jsstring | JOther 'a

type_synonym 'a jsobject = "(jsstring \<times> 'a jsval) list"

definition Object_keys :: "'a jsobject \<Rightarrow> jsstring list" where
  "Object_keys obj = map fst obj"

definition Object_values :: "'a jsobject \<Rightarrow> 'a jsval list" where
  "Object_values obj = map snd obj"

definition get_prop :: "'a jsobject \<Rightarrow> jsstring \<Rightarrow> 'a jsval" where
  "get_prop obj k = (case map_of obj k of Some v \<Rightarrow> v | None \<Rightarrow> JUndefined)"

text \<open>\<open>xs.map((x, i) => f(x, i))\<close>.\<close>

definition map_index :: "('x \<Rightarrow> nat \<Rightarrow> 'y) \<Rightarrow> 'x list \<Rightarrow> 'y list" where
  "map_index f xs = map (\<lambda>(i, x). f x i) (enumerate 0 xs)"

text \<open>
  What lies outside the repository is a parameter: how JavaScript prints a value that
  is not a string, and \<open>JSON.stringify(rows, null, 2)\<close>.
\<close>

datatype 'a rowsval = RowArray "'a jsobject list" | ResultHeader nat | NoRows

record 'a runtime =
  String_other :: "'a \<Rightarrow> jsstring"
  JSON_stringify :: "'a rowsval \<Rightarrow> jsstring"

definition to_String :: "'a runtime \<Rightarrow> 'a jsval \<Rightarrow> jsstring" where
  "to_String rt v =
     (case v of JUndefined \<Rightarrow> js ''undefined'' | JString s \<Rightarrow> s | JOther a \<Rightarrow> String_other rt a)"

text \<open>
  The pool of the driver (\<open>mysql2\<close> or \<open>pg\<close>). A call carries the statement text and,
  for \<open>execute(sql, params)\<close> and \<open>query(sql, params)\<close>, the bound values. The driver
  either throws, and \<open>Threw m\<close> holds the text that \<open>e.message || e\<close> yields, or
  returns rows and field descriptions: an array of row objects, the result header of
  \<open>mysql2\<close> with its \<open>affectedRows\<close>, or nothing. The database is whatever state the
  driver keeps; \<open>issued\<close> records every statement handed to the pool, in order.
\<close>

datatype 'a call = Stmt jsstring | StmtParams jsstring "'a jsval list"

record 'a raw_result =
  raw_rows :: "'a rowsval"
  raw_fields :: "jsstring list option"

datatype 'a reply = Threw jsstring | Returned "'a raw_result"

type_synonym ('db, 'a) driver = "'db \<Rightarrow> 'a call \<Rightarrow> 'a reply \<times> 'db"

record ('db, 'a) pool_state =
  database :: 'db
  issued :: "'a call list"

definition pool_call ::
  "('db, 'a) driver \<Rightarrow> 'a call \<Rightarrow> ('db, 'a) pool_state \<Rightarrow> 'a reply \<times> ('db, 'a) pool_state" where
  "pool_call drv c s =
     (fst (drv (database s) c),
      \<lparr>database = snd (drv (database s) c), issued = issued s @ [c]\<rparr>)"

section \<open>\<open>QueryRunner.js\<close>\<close>

record 'a query_result =
  columns :: "jsstring list"
  rows :: "'a rowsval"

definition field_names :: "jsstring list option \<Rightarrow> jsstring list" where
  "field_names fds = (case fds of Some names \<Rightarrow> names | None \<Rightarrow> [])"

definition runQuery ::
  "dialect \<Rightarrow> ('db, 'a) driver \<Rightarrow> jsstring \<Rightarrow> ('db, 'a) pool_state
     \<Rightarrow> (jsstring + 'a query_result) \<times> ('db, 'a) pool_state" where
  "runQuery db_type drv sql s =
     (case pool_call drv (Stmt sql) s of
        (Threw e, s') \<Rightarrow> (Inl e, s')
      | (Returned r, s') \<Rightarrow>
          (Inr \<lparr>columns = field_names (raw_fields r),
                rows = (if db_type = MySQL
                        then (case raw_rows r of RowArray rs \<Rightarrow> RowArray rs | _ \<Rightarrow> RowArray [])
                        else (case raw_rows r of NoRows \<Rightarrow> RowArray [] | x \<Rightarrow> x))\<rparr>, s'))"

definition runQueryWithParams ::
  "dialect \<Rightarrow> ('db, 'a) driver \<Rightarrow> jsstring \<Rightarrow> 'a jsval list \<Rightarrow> ('db, 'a) pool_state
     \<Rightarrow> (jsstring + 'a query_result) \<times> ('db, 'a) pool_state" where
  "runQueryWithParams db_type drv sql params s =
     (case pool_call drv (StmtParams sql params) s of
        (Threw e, s') \<Rightarrow> (Inl e, s')
      | (Returned r, s') \<Rightarrow>
          (Inr \<lparr>columns = field_names (raw_fields r), rows = raw_rows r\<rparr>, s'))"

text \<open>
  The body of the \<open>try\<close> block of \<open>getTableColumns\<close> (lines 101 to 117). Besides a
  failure of the driver, \<open>cols.map\<close> throws a TypeError when the driver did not return
  an array; the text of that error is never seen, since the \<open>catch\<close> clause drops it.
\<close>

definition show_columns_sql :: "jsstring \<Rightarrow> jsstring" where
  "show_columns_sql table = js ''SHOW COLUMNS FROM '' @ [0x60] @ table @ [0x60]"

definition information_schema_sql :: jsstring where
  "information_schema_sql =
     [0x0A] @ js ''          SELECT column_name FROM information_schema.columns''
     @ [0x0A] @ js ''          WHERE table_name = $1''
     @ [0x0A] @ js ''        ''"

definition getTableColumns_try ::
  "dialect \<Rightarrow> ('db, 'a) driver \<Rightarrow> jsstring \<Rightarrow> ('db, 'a) pool_state
     \<Rightarrow> (jsstring + 'a jsval list) \<times> ('db, 'a) pool_state" where
  "getTableColumns_try db_type drv table s =
     (if db_type = MySQL then
        (case pool_call drv (Stmt (show_columns_sql table)) s of
           (Threw e, s') \<Rightarrow> (Inl e, s')
         | (Returned r, s') \<Rightarrow>
             (case raw_rows r of
                RowArray cols \<Rightarrow> (Inr (map (\<lambda>c. get_prop c (js ''Field'')) cols), s')
              | _ \<Rightarrow> (Inl (js ''cols.map is not a function''), s')))
      else
        (case pool_call drv (StmtParams information_schema_sql [JString table]) s of
           (Threw e, s') \<Rightarrow> (Inl e, s')
         | (Returned r, s') \<Rightarrow>
             (case raw_rows r of
                RowArray res_rows \<Rightarrow> (Inr (map (\<lambda>c. get_prop c (js ''column_name'')) res_rows), s')
              | _ \<Rightarrow> (Inl (js ''res.rows.map is not a function''), s'))))"

text \<open>
  \<open>getTableColumns\<close> itself: the \<open>catch\<close> clause returns the empty array. The result
  keeps the type of a call that may throw, so that its callers' own \<open>catch\<close> clauses
  can be written down.
\<close>

definition getTableColumns ::
  "dialect \<Rightarrow> ('db, 'a) driver \<Rightarrow> jsstring \<Rightarrow> ('db, 'a) pool_state
     \<Rightarrow> (jsstring + 'a jsval list) \<times> ('db, 'a) pool_state" where
  "getTableColumns db_type drv table s =
     (case getTableColumns_try db_type drv table s of
        (Inl error, s') \<Rightarrow> (Inr [], s')
      | (Inr cols, s') \<Rightarrow> (Inr cols, s'))"

section \<open>The tool handlers of \<open>mcp_server.js\<close>\<close>

text \<open>
  A handler returns \<open>{ isError: true, content: [{ type: 'text', text }] }\<close> or
  \<open>{ content: [{ type: 'text', text }] }\<close>. The arguments of a handler have passed the
  schema of the tool, so a string argument is a string, possibly empty, and \<open>!x\<close> on it
  tests for the empty string.
\<close>

record envelope =
  isError :: bool
  content_text :: jsstring

definition ok :: "jsstring \<Rightarrow> envelope" where
  "ok t = \<lparr>isError = False, content_text = t\<rparr>"

definition err :: "jsstring \<Rightarrow> envelope" where
  "err t = \<lparr>isError = True, content_text = t\<rparr>"

definition apos :: jsstring where
  "apos = [0x27]"

subsection \<open>\<open>columnasDeTabla\<close>\<close>

text \<open>Lines 91 to 105 of \<open>mcp_server.js\<close>.\<close>

definition columnasDeTabla ::
  "dialect \<Rightarrow> 'a runtime \<Rightarrow> ('db, 'a) driver \<Rightarrow> jsstring \<Rightarrow> ('db, 'a) pool_state
     \<Rightarrow> envelope \<times> ('db, 'a) pool_state" where
  "columnasDeTabla db_type rt drv tabla s =
     (case getTableColumns db_type drv tabla s of
        (Inl e, s') \<Rightarrow> (err (js ''Error al listar columnas: '' @ e), s')
      | (Inr cols, s') \<Rightarrow>
          (if cols = []
           then (ok (js ''La tabla '' @ apos @ tabla @ apos @ js '' no tiene columnas.''), s')
           else (ok (js ''Columnas de la tabla '' @ apos @ tabla @ apos @ js '':'' @ [0x0A]
                     @ join [0x0A] (map (\<lambda>col. js ''- '' @ to_String rt col) cols)), s')))"

subsection \<open>\<open>consultarSQL\<close>\<close>

text \<open>
  Lines 119 to 146. After \<open>runQuery\<close> the rows are never \<open>undefined\<close>; a result header
  has no \<open>length\<close>, so \<open>!rows.length\<close> holds for it.
\<close>

definition consultarSQL ::
  "dialect \<Rightarrow> 'a runtime \<Rightarrow> ('db, 'a) driver \<Rightarrow> jsstring \<Rightarrow> ('db, 'a) pool_state
     \<Rightarrow> envelope \<times> ('db, 'a) pool_state" where
  "consultarSQL db_type rt drv consulta s =
     (if \<not> re_select_i (trim consulta)
      then (err (js ''Solo se permiten consultas SELECT.''), s)
      else
        (case runQuery db_type drv consulta s of
           (Inl e, s') \<Rightarrow> (err (js ''Error al consultar: '' @ e), s')
         | (Inr result, s') \<Rightarrow>
             (case rows result of
                NoRows \<Rightarrow>
                  (err (js ''Error al consultar: ''
                        @ js ''Cannot read properties of undefined (reading ''
                        @ apos @ js ''length'' @ apos @ js '')''), s')
              | ResultHeader n \<Rightarrow> (ok (js ''Sin resultados.''), s')
              | RowArray rs \<Rightarrow>
                  (if rs = [] then (ok (js ''Sin resultados.''), s')
                   else
                     (let headers = join (js '' | '') (columns result);
                          dataRows = join [0x0A]
                            (map (\<lambda>row. join (js '' | '')
                                    (map (\<lambda>c. to_String rt (get_prop row c)) (columns result))) rs)
                      in (ok (headers @ [0x0A] @ replicate (length headers) 0x2D @ [0x0A] @ dataRows),
                          s'))))))"

subsection \<open>\<open>crearTabla\<close>\<close>

text \<open>
  Lines 252 to 277. The inner \<open>try\<close> around the probe has an empty \<open>catch\<close>, so a
  probe that throws is followed by the CREATE like a probe that finds nothing.
\<close>

record columna =
  nombre :: jsstring
  tipo :: jsstring

definition create_table_sql :: "dialect \<Rightarrow> jsstring \<Rightarrow> columna list \<Rightarrow> jsstring" where
  "create_table_sql db_type nombreTabla columnas =
     (let columnasSQL =
            join (js '','' @ [0x0A]) (map (\<lambda>col. quoteIdent db_type (nombre col) @ js '' '' @ tipo col) columnas)
      in js ''CREATE TABLE '' @ quoteIdent db_type nombreTabla @ js '' ('' @ [0x0A] @ columnasSQL
         @ [0x0A] @ js '')'')"

definition crearTabla ::
  "dialect \<Rightarrow> ('db, 'a) driver \<Rightarrow> jsstring \<Rightarrow> columna list \<Rightarrow> ('db, 'a) pool_state
     \<Rightarrow> envelope \<times> ('db, 'a) pool_state" where
  "crearTabla db_type drv nombreTabla columnas s =
     (if nombreTabla = [] \<or> columnas = []
      then (err (js ''Debes proporcionar un nombre de tabla y al menos una columna.''), s)
      else
        (case getTableColumns db_type drv nombreTabla s of
           (probe, s1) \<Rightarrow>
             (case probe of
                Inr (c # cs) \<Rightarrow>
                  (ok (js ''La tabla '' @ apos @ nombreTabla @ apos
                       @ js '' ya existe. No es necesario crearla.''), s1)
              | _ \<Rightarrow>
                  (case runQuery db_type drv (create_table_sql db_type nombreTabla columnas) s1 of
                     (Inl e, s2) \<Rightarrow> (err (js ''Error al crear la tabla: '' @ e), s2)
                   | (Inr result, s2) \<Rightarrow> (ok (js ''Tabla creada exitosamente.''), s2)))))"

subsection \<open>\<open>insertarDatos\<close> and \<open>importarTabla\<close>\<close>

text \<open>
  Lines 324 to 354 and 198 to 231.
  The three places that build an INSERT (\<open>insertarDatos\<close>, \<open>importarTabla\<close> and the
  create branch of \<open>crudTabla\<close>) compose the same text from the column names and the
  number of values.
\<close>

definition insert_sql :: "dialect \<Rightarrow> jsstring \<Rightarrow> jsstring list \<Rightarrow> nat \<Rightarrow> jsstring" where
  "insert_sql db_type tabla cols n =
     (let placeholders = join (js '', '') (makePlaceholders db_type n 0);
          columnasStr = join (js '', '') (map (quoteIdent db_type) cols)
      in js ''INSERT INTO '' @ quoteIdent db_type tabla @ js '' ('' @ columnasStr
         @ js '') VALUES ('' @ placeholders @ js '')'')"



text \<open>
  \<open>importarTabla\<close> first turns its text into records (\<open>JSON.parse\<close>, or the splitting of
  CSV lines). That phase is represented by its outcome \<open>parsed\<close>: the text of what was
  thrown before the loop reached a first element (by \<open>JSON.parse\<close>, by the splitting, or
  by \<open>for ... of\<close> on a value that cannot be iterated), or the ordered sequence of the
  elements that the loop visits.

  An element of a parsed JSON array need not be an object. It is \<open>null\<close>, or a value
  with its own enumerable keys in order (\<open>Object.keys(registro)\<close>) and a member lookup
  (\<open>registro[c]\<close>), which also finds what the prototype chain holds, such as \<open>toString\<close>.
\<close>

datatype 'a parsed = Parsed_null | Parsed_value "jsstring list" "jsstring \<Rightarrow> 'a jsval"



subsection \<open>\<open>crudTabla\<close>\<close>

datatype accion = Create | Read | Update | Delete

text \<open>\<open>result.rows?.affectedRows ?? 'verifica la tabla.'\<close>, as the template prints it.\<close>

definition affectedRows_text :: "'a rowsval \<Rightarrow> jsstring" where
  "affectedRows_text r = (case r of ResultHeader n \<Rightarrow> digits n | _ \<Rightarrow> js ''verifica la tabla.'')"

definition crud_create ::
  "dialect \<Rightarrow> ('db, 'a) driver \<Rightarrow> jsstring \<Rightarrow> 'a jsobject \<Rightarrow> ('db, 'a) pool_state
     \<Rightarrow> envelope \<times> ('db, 'a) pool_state" where
  "crud_create db_type drv tabla datos s =
     (let columnas = Object_keys datos;
          vals = Object_values datos;
          sql = insert_sql db_type tabla columnas (length vals)
      in case runQueryWithParams db_type drv sql vals s of
           (Inl e, s') \<Rightarrow> (err (js ''Error en CRUD: '' @ e), s')
         | (Inr result, s') \<Rightarrow> (ok (js ''Registro creado exitosamente.''), s'))"

definition crud_read ::
  "dialect \<Rightarrow> 'a runtime \<Rightarrow> ('db, 'a) driver \<Rightarrow> jsstring \<Rightarrow> 'a jsobject \<Rightarrow> ('db, 'a) pool_state
     \<Rightarrow> envelope \<times> ('db, 'a) pool_state" where
  "crud_read db_type rt drv tabla filtro s =
     (let condiciones =
            map_index (\<lambda>col i. quoteIdent db_type col @ js '' = '' @ makePlaceholders db_type 1 i ! 0)
              (Object_keys filtro);
          where_clause = (if Object_keys filtro \<noteq> [] then js ''WHERE '' @ join (js '' AND '') condiciones else []);
          valores = (if Object_keys filtro \<noteq> [] then Object_values filtro else []);
          sql = js ''SELECT * FROM '' @ quoteIdent db_type tabla @ js '' '' @ where_clause
      in case runQueryWithParams db_type drv sql valores s of
           (Inl e, s') \<Rightarrow> (err (js ''Error en CRUD: '' @ e), s')
         | (Inr result, s') \<Rightarrow> (ok (JSON_stringify rt (rows result)), s'))"

definition crud_update ::
  "dialect \<Rightarrow> ('db, 'a) driver \<Rightarrow> jsstring \<Rightarrow> 'a jsobject \<Rightarrow> 'a jsobject \<Rightarrow> ('db, 'a) pool_state
     \<Rightarrow> envelope \<times> ('db, 'a) pool_state" where
  "crud_update db_type drv tabla datos filtro s =
     (if Object_keys filtro = []
      then (err (js ''Debes proporcionar un filtro para actualizar.''), s)
      else
        (let setCols = join (js '', '')
               (map_index (\<lambda>col i. quoteIdent db_type col @ js '' = '' @ makePlaceholders db_type 1 i ! 0)
                  (Object_keys datos));
             setVals = Object_values datos;
             whereCols = join (js '' AND '')
               (map_index (\<lambda>col i. quoteIdent db_type col @ js '' = ''
                                    @ makePlaceholders db_type 1 (length setVals + i) ! 0)
                  (Object_keys filtro));
             whereVals = Object_values filtro;
             sql = js ''UPDATE '' @ quoteIdent db_type tabla @ js '' SET '' @ setCols
                   @ js '' WHERE '' @ whereCols;
             valores = setVals @ whereVals
         in case runQueryWithParams db_type drv sql valores s of
              (Inl e, s') \<Rightarrow> (err (js ''Error en CRUD: '' @ e), s')
            | (Inr result, s') \<Rightarrow>
                (ok (js ''Registros actualizados: '' @ affectedRows_text (rows result)), s')))"

definition crud_delete ::
  "dialect \<Rightarrow> ('db, 'a) driver \<Rightarrow> jsstring \<Rightarrow> 'a jsobject \<Rightarrow> ('db, 'a) pool_state
     \<Rightarrow> envelope \<times> ('db, 'a) pool_state" where
  "crud_delete db_type drv tabla filtro s =
     (if Object_keys filtro = []
      then (err (js ''Debes proporcionar un filtro para borrar.''), s)
      else
        (let whereCols = join (js '' AND '')
               (map_index (\<lambda>col i. quoteIdent db_type col @ js '' = '' @ makePlaceholders db_type 1 i ! 0)
                  (Object_keys filtro));
             whereVals = Object_values filtro;
             sql = js ''DELETE FROM '' @ quoteIdent db_type tabla @ js '' WHERE '' @ whereCols
         in case runQueryWithParams db_type drv sql whereVals s of
              (Inl e, s') \<Rightarrow> (err (js ''Error en CRUD: '' @ e), s')
            | (Inr result, s') \<Rightarrow>
                (ok (js ''Registros eliminados: '' @ affectedRows_text (rows result)), s')))"

text \<open>
  The handler (lines 372 to 431), whose branches are the four definitions above.
  \<open>accion\<close> is one of the four words of the schema, so \<open>!accion\<close> is false
  and the closing return of \<open>'Accion no soportada.'\<close> is never reached. \<open>datos\<close> and \<open>filtro\<close> are
  optional objects: \<open>None\<close> is an argument that was left out. A missing \<open>filtro\<close>
  becomes \<open>{}\<close>; \<open>datos\<close> is only read by the create and update branches, which the
  second test guards.
\<close>

definition crudTabla ::
  "dialect \<Rightarrow> 'a runtime \<Rightarrow> ('db, 'a) driver \<Rightarrow> jsstring \<Rightarrow> accion \<Rightarrow> 'a jsobject option
     \<Rightarrow> 'a jsobject option \<Rightarrow> ('db, 'a) pool_state \<Rightarrow> envelope \<times> ('db, 'a) pool_state" where
  "crudTabla db_type rt drv tabla acc datos filtro s =
     (if tabla = []
      then (err (js ''Debes especificar la tabla y la acci'' @ [0xF3] @ js ''n.''), s)
      else if (acc = Create \<or> acc = Update) \<and> datos = None
      then (err (js ''Debes proporcionar datos para crear o actualizar.''), s)
      else
        (let filtro' = (case filtro of None \<Rightarrow> [] | Some f \<Rightarrow> f);
             datos' = (case datos of None \<Rightarrow> [] | Some d \<Rightarrow> d)
         in case acc of
              Create \<Rightarrow> crud_create db_type drv tabla datos' s
            | Read \<Rightarrow> crud_read db_type rt drv tabla filtro' s
            | Update \<Rightarrow> crud_update db_type drv tabla datos' filtro' s
            | Delete \<Rightarrow> crud_delete db_type drv tabla filtro' s))"

subsection \<open>The handlers that drop\<close>

text \<open>Lines 550 to 561, 576 to 587, 602 to 618 and 634 to 650.\<close>

definition eliminarTabla ::
  "dialect \<Rightarrow> ('db, 'a) driver \<Rightarrow> jsstring \<Rightarrow> ('db, 'a) pool_state
     \<Rightarrow> envelope \<times> ('db, 'a) pool_state" where
  "eliminarTabla db_type drv nombreTabla s =
     (if nombreTabla = []
      then (err (js ''Debes proporcionar el nombre de la tabla.''), s)
      else
        (case runQuery db_type drv (js ''DROP TABLE IF EXISTS '' @ quoteIdent db_type nombreTabla) s of
           (Inl e, s') \<Rightarrow> (err (js ''Error al eliminar la tabla: '' @ e), s')
         | (Inr result, s') \<Rightarrow>
             (ok (js ''Tabla '' @ apos @ nombreTabla @ apos @ js '' eliminada exitosamente.''), s')))"

definition eliminarColumna ::
  "dialect \<Rightarrow> ('db, 'a) driver \<Rightarrow> jsstring \<Rightarrow> jsstring \<Rightarrow> ('db, 'a) pool_state
     \<Rightarrow> envelope \<times> ('db, 'a) pool_state" where
  "eliminarColumna db_type drv tabla columna s =
     (if tabla = [] \<or> columna = []
      then (err (js ''Debes proporcionar la tabla y la columna.''), s)
      else
        (case runQuery db_type drv
                (js ''ALTER TABLE '' @ quoteIdent db_type tabla @ js '' DROP COLUMN ''
                 @ quoteIdent db_type columna) s of
           (Inl e, s') \<Rightarrow> (err (js ''Error al eliminar la columna: '' @ e), s')
         | (Inr result, s') \<Rightarrow>
             (ok (js ''Columna '' @ apos @ columna @ apos @ js '' eliminada de la tabla ''
                  @ apos @ tabla @ apos @ js '' exitosamente.''), s')))"

definition eliminarRestriccionUnica ::
  "dialect \<Rightarrow> ('db, 'a) driver \<Rightarrow> jsstring \<Rightarrow> jsstring \<Rightarrow> ('db, 'a) pool_state
     \<Rightarrow> envelope \<times> ('db, 'a) pool_state" where
  "eliminarRestriccionUnica db_type drv tabla nombre' s =
     (if tabla = [] \<or> nombre' = []
      then (err (js ''Debes proporcionar la tabla y el nombre de la restricci'' @ [0xF3] @ js ''n.''), s)
      else
        (let sql = (if db_type = MySQL
                    then js ''ALTER TABLE '' @ quoteIdent db_type tabla @ js '' DROP INDEX ''
                         @ quoteIdent db_type nombre'
                    else js ''ALTER TABLE '' @ quoteIdent db_type tabla @ js '' DROP CONSTRAINT ''
                         @ quoteIdent db_type nombre')
         in case runQuery db_type drv sql s of
              (Inl e, s') \<Rightarrow>
                (err (js ''Error al eliminar restricci'' @ [0xF3] @ js ''n UNIQUE: '' @ e), s')
            | (Inr result, s') \<Rightarrow>
                (ok (js ''Restricci'' @ [0xF3] @ js ''n UNIQUE eliminada exitosamente.''), s')))"

definition eliminarClaveForanea ::
  "dialect \<Rightarrow> ('db, 'a) driver \<Rightarrow> jsstring \<Rightarrow> jsstring \<Rightarrow> ('db, 'a) pool_state
     \<Rightarrow> envelope \<times> ('db, 'a) pool_state" where
  "eliminarClaveForanea db_type drv tabla nombre' s =
     (if tabla = [] \<or> nombre' = []
      then (err (js ''Debes proporcionar la tabla y el nombre de la clave for'' @ [0xE1] @ js ''nea.''), s)
      else
        (let sql = (if db_type = MySQL
                    then js ''ALTER TABLE '' @ quoteIdent db_type tabla @ js '' DROP FOREIGN KEY ''
                         @ quoteIdent db_type nombre'
                    else js ''ALTER TABLE '' @ quoteIdent db_type tabla @ js '' DROP CONSTRAINT ''
                         @ quoteIdent db_type nombre')
         in case runQuery db_type drv sql s of
              (Inl e, s') \<Rightarrow>
                (err (js ''Error al eliminar clave for'' @ [0xE1] @ js ''nea: '' @ e), s')
            | (Inr result, s') \<Rightarrow>
                (ok (js ''Clave for'' @ [0xE1] @ js ''nea eliminada exitosamente.''), s')))"

section \<open>Notions used to state the properties\<close>

text \<open>
  The confirmation phrase that the description of \<open>eliminarTabla\<close> asks the calling
  agent to obtain from the user: \<open>Confirmar eliminacion de la tabla [nombreTabla]\<close>,
  with an acute accent on the last \<open>o\<close> of the second word. No handler receives it.
\<close>

definition confirmacion_eliminarTabla :: "jsstring \<Rightarrow> jsstring" where
  "confirmacion_eliminarTabla nombreTabla =
     js ''Confirmar eliminaci'' @ [0xF3] @ js ''n de la tabla '' @ nombreTabla"




definition importarTabla_call ::
  "dialect \<Rightarrow> jsstring \<Rightarrow> jsstring list option \<Rightarrow> jsstring list \<Rightarrow> (jsstring \<Rightarrow> 'a jsval)
     \<Rightarrow> 'a call" where
  "importarTabla_call db_type tabla columnas ks get =
     (let cols = (case columnas of Some (c # cs) \<Rightarrow> c # cs | _ \<Rightarrow> ks)
      in StmtParams (insert_sql db_type tabla cols (length cols)) (map get cols))"

text \<open>
  The calls of \<open>importarTabla\<close> on a sequence of parsed elements, as long as the driver
  completes them: one for each element in order, up to the first \<open>null\<close>.
\<close>

fun importarTabla_calls ::
  "dialect \<Rightarrow> jsstring \<Rightarrow> jsstring list option \<Rightarrow> 'a parsed list \<Rightarrow> 'a call list" where
  "importarTabla_calls db_type tabla columnas [] = []"
| "importarTabla_calls db_type tabla columnas (Parsed_null # rest) = []"
| "importarTabla_calls db_type tabla columnas (Parsed_value ks get # rest) =
     importarTabla_call db_type tabla columnas ks get
       # importarTabla_calls db_type tabla columnas rest"


text \<open>
  Small environments on which the handlers can be run: a runtime, a MySQL-like and a
  PostgreSQL-like driver over a catalogue of table names (each table has the one column
  \<open>id\<close>; a \<open>DROP TABLE IF EXISTS\<close> removes the table it names; \<open>SHOW COLUMNS\<close> of an
  unknown table throws, the \<open>information_schema\<close> query of an unknown table returns no
  rows), and a driver that counts its calls and throws on the call numbered \<open>k\<close>.
\<close>

definition plain_runtime :: "unit runtime" where
  "plain_runtime = \<lparr>String_other = (\<lambda>u. js ''null''), JSON_stringify = (\<lambda>r. js ''[]'')\<rparr>"

definition no_rows :: "unit raw_result" where
  "no_rows = \<lparr>raw_rows = RowArray [], raw_fields = Some []\<rparr>"

definition id_column :: "jsstring \<Rightarrow> unit raw_result" where
  "id_column k = \<lparr>raw_rows = RowArray [[(k, JString (js ''id''))]], raw_fields = Some [k]\<rparr>"

definition toy_mysql :: "(jsstring list, unit) driver" where
  "toy_mysql tables c =
     (case c of
        Stmt sql \<Rightarrow>
          (if take 13 sql = js ''SHOW COLUMNS ''
           then (if sql \<in> set (map show_columns_sql tables)
                 then (Returned (id_column (js ''Field'')), tables)
                 else (Threw (js ''Table does not exist''), tables))
           else (Returned \<lparr>raw_rows = ResultHeader 0, raw_fields = None\<rparr>,
                 filter (\<lambda>t. sql \<noteq> js ''DROP TABLE IF EXISTS '' @ quoteIdent MySQL t) tables))
      | StmtParams sql params \<Rightarrow>
          (Returned \<lparr>raw_rows = ResultHeader 1, raw_fields = None\<rparr>, tables))"

definition toy_pg :: "(jsstring list, unit) driver" where
  "toy_pg tables c =
     (case c of
        Stmt sql \<Rightarrow>
          (Returned no_rows,
           filter (\<lambda>t. sql \<noteq> js ''DROP TABLE IF EXISTS '' @ quoteIdent Postgres t) tables)
      | StmtParams sql params \<Rightarrow>
          (if sql = information_schema_sql
           then (if params \<in> set (map (\<lambda>t. [JString t]) tables)
                 then (Returned (id_column (js ''column_name'')), tables)
                 else (Returned no_rows, tables))
           else (Returned no_rows, tables)))"



definition shop :: "(jsstring list, unit) pool_state" where
  "shop = \<lparr>database = [js ''products''], issued = []\<rparr>"

definition empty_shop :: "(jsstring list, unit) pool_state" where
  "empty_shop = \<lparr>database = [], issued = []\<rparr>"



section \<open>Decimal numerals\<close>

lemma unat_digit: "d < 10 \<Longrightarrow> unat (digit d - 0x30) = d"
  by (simp add: digit_def unat_of_nat)

lemma decimal_value_snoc:
  "decimal_value (s @ [c]) = 10 * decimal_value s + unat (c - 0x30)"
  by (simp add: decimal_value_def)

lemma decimal_value_digits: "decimal_value (digits n) = n"
proof (induction n rule: digits.induct)
  case (1 n)
  show ?case
  proof (cases "n < 10")
    case True
    then show ?thesis
      by (simp add: digits.simps [of n] decimal_value_def unat_digit)
  next
    case False
    have "decimal_value (digits n) = 10 * decimal_value (digits (n div 10)) + n mod 10"
      using False by (simp add: digits.simps [of n] decimal_value_snoc unat_digit)
    also have "\<dots> = 10 * (n div 10) + n mod 10"
      using 1 False by simp
    finally show ?thesis by simp
  qed
qed

lemma digits_inject: "digits a = digits b \<Longrightarrow> a = b"
  by (metis decimal_value_digits)

lemma placeholder_number_dollar: "placeholder_number (js ''$'' @ digits m) = m"
  by (simp add: placeholder_number_def js_def decimal_value_digits)

section \<open>Placeholders\<close>

lemma length_makePlaceholders: "length (makePlaceholders db_type n k) = n"
  by (simp add: makePlaceholders_def)

lemma makePlaceholders_Postgres:
  "makePlaceholders Postgres n k = map (\<lambda>m. js ''$'' @ digits m) [Suc k..<Suc (k + n)]"
proof -
  have "map (\<lambda>i. js ''$'' @ digits (i + 1 + k)) [0..<n]
      = map (\<lambda>m. js ''$'' @ digits m) (map (\<lambda>i. i + Suc k) [0..<n])"
    by (simp add: comp_def)
  also have "map (\<lambda>i. i + Suc k) [0..<n] = [Suc k..<Suc (k + n)]"
    using map_add_upt [of "Suc k" n] by (simp add: add.commute)
  finally show ?thesis
    by (simp add: makePlaceholders_def)
qed

lemma numbers_makePlaceholders:
  "map placeholder_number (makePlaceholders Postgres n k) = [Suc k..<Suc (k + n)]"
  by (simp add: makePlaceholders_Postgres comp_def placeholder_number_dollar map_idI)

lemma number_text_exact: "m \<le> 2 ^ 53 \<Longrightarrow> number_text large m = digits m"
  by (simp add: number_text_def round_to_double_def)

lemma makePlaceholders_number_exact:
  assumes "n < 2 ^ 32" and "k + n \<le> 2 ^ 53"
  shows "makePlaceholders_number large db_type n k = Inr (makePlaceholders db_type n k)"
proof -
  have "map (\<lambda>i. js ''$'' @ number_text large (i + 1 + k)) [0..<n]
      = map (\<lambda>i. js ''$'' @ digits (i + 1 + k)) [0..<n]"
  proof (rule map_cong [OF refl])
    fix i assume "i \<in> set [0..<n]"
    then have "i + 1 + k \<le> 2 ^ 53"
      using assms(2) by simp
    then show "js ''$'' @ number_text large (i + 1 + k) = js ''$'' @ digits (i + 1 + k)"
      by (simp only: number_text_exact)
  qed
  then show ?thesis
    using assms(1) by (simp add: makePlaceholders_number_def makePlaceholders_def)
qed

lemma makePlaceholders_number_MySQL:
  "n < 2 ^ 32 \<Longrightarrow> makePlaceholders_number large MySQL n j = Inr (replicate n (js ''?''))"
  by (simp add: makePlaceholders_number_def)

lemma digits_3: "digits 3 = js ''3''"
  and digits_4: "digits 4 = js ''4''" and digits_5: "digits 5 = js ''5''"
  by (simp_all add: digits.simps digit_def js_def)

lemma digits_2_53: "digits 9007199254740992 = js ''9007199254740992''"
  by (simp add: digits.simps digit_def js_def)

lemma digits_2_53_2: "digits 9007199254740994 = js ''9007199254740994''"
  by (simp add: digits.simps digit_def js_def)

lemma number_text_2_53_1: "number_text large 9007199254740993 = digits 9007199254740992"
  by (simp add: number_text_def round_to_double_def)

lemma number_text_2_53_2: "number_text large 9007199254740994 = digits 9007199254740994"
  by (simp add: number_text_def round_to_double_def)

text \<open>
  Claim C4, as amended. For a count \<open>n\<close> below \<open>2^32\<close> and an offset \<open>k\<close> with
  \<open>k + n \<le> 2^53\<close>, \<open>makePlaceholders\<close> returns, without throwing, exactly \<open>n\<close> tokens.
  On the numbered dialect they are the dollar sign followed by the decimal numerals of
  \<open>k+1, k+2, ..., k+n\<close>, in that order; on the fixed-token dialect all \<open>n\<close> tokens are
  the question mark, whatever the offset is.
\<close>

theorem makePlaceholders_number_tokens:
  "n < 2 ^ 32 \<Longrightarrow> k + n \<le> 2 ^ 53 \<Longrightarrow>
     makePlaceholders_number large Postgres n k
       = Inr (map (\<lambda>m. js ''$'' @ digits m) [Suc k..<Suc (k + n)])
   \<and> map placeholder_number (map (\<lambda>m. js ''$'' @ digits m) [Suc k..<Suc (k + n)])
       = [Suc k..<Suc (k + n)]
   \<and> makePlaceholders_number large MySQL n j = Inr (replicate n (js ''?''))
   \<and> makePlaceholders_number large db_type n k = Inr (makePlaceholders db_type n k)
   \<and> length (makePlaceholders db_type n k) = n"
proof -
  assume n: "n < 2 ^ 32" and k: "k + n \<le> 2 ^ 53"
  have a: "makePlaceholders_number large Postgres n k
       = Inr (map (\<lambda>m. js ''$'' @ digits m) [Suc k..<Suc (k + n)])"
    using makePlaceholders_number_exact [OF n k, of large Postgres]
    by (simp only: makePlaceholders_Postgres)
  have b: "map placeholder_number (map (\<lambda>m. js ''$'' @ digits m) [Suc k..<Suc (k + n)])
       = [Suc k..<Suc (k + n)]"
    using numbers_makePlaceholders [of n k] by (simp only: makePlaceholders_Postgres)
  show ?thesis
    using a b makePlaceholders_number_MySQL [OF n, of large j]
      makePlaceholders_number_exact [OF n k, of large db_type]
      length_makePlaceholders [of db_type n k]
    by blast
qed

theorem makePlaceholders_number_tokens_witness:
  "(3::nat) < 2 ^ 32 \<and> (2::nat) + 3 \<le> 2 ^ 53
   \<and> makePlaceholders_number digits Postgres 3 2 = Inr [js ''$3'', js ''$4'', js ''$5'']
   \<and> makePlaceholders_number digits MySQL 3 7 = Inr [js ''?'', js ''?'', js ''?'']"
proof -
  have r: "[Suc 2..<Suc (2 + 3)] = [3, 4, 5]"
    by (simp add: upt_rec)
  have e: "js ''$'' @ js ''3'' = js ''$3''" "js ''$'' @ js ''4'' = js ''$4''"
      "js ''$'' @ js ''5'' = js ''$5''"
    by (simp_all add: js_def)
  have q: "replicate 3 (js ''?'') = [js ''?'', js ''?'', js ''?'']"
    by (simp add: numeral_3_eq_3)
  have t: "makePlaceholders_number digits Postgres 3 2
        = Inr (map (\<lambda>m. js ''$'' @ digits m) [Suc 2..<Suc (2 + 3)])
      \<and> makePlaceholders_number digits MySQL 3 7 = Inr (replicate 3 (js ''?''))"
    using makePlaceholders_number_tokens [of 3 2 digits 7 Postgres] by simp
  from t have "makePlaceholders_number digits Postgres 3 2
      = Inr (map (\<lambda>m. js ''$'' @ digits m) [3, 4, 5])"
    by (simp only: r)
  then have p: "makePlaceholders_number digits Postgres 3 2 = Inr [js ''$3'', js ''$4'', js ''$5'']"
    by (simp only: list.map digits_3 digits_4 digits_5 e)
  from t have m: "makePlaceholders_number digits MySQL 3 7 = Inr [js ''?'', js ''?'', js ''?'']"
    by (simp only: q)
  show ?thesis
    using p m by simp
qed

text \<open>
  The claim as written, for every count and every offset, fails on both sides of that
  range. With the offset \<open>2^53\<close> and two tokens the claimed numbers are \<open>2^53 + 1\<close> and
  \<open>2^53 + 2\<close>, but the first sum is rounded and the tokens carry \<open>2^53\<close> and \<open>2^53 + 2\<close>.
  With the count \<open>2^32\<close> no token is returned at all: the array cannot be constructed.
\<close>

theorem makePlaceholders_number_beyond_exact_range:
  "(9007199254740992::nat) = 2 ^ 53 \<and> (4294967296::nat) = 2 ^ 32
   \<and> makePlaceholders_number digits Postgres 2 9007199254740992
     = Inr [js ''$9007199254740992'', js ''$9007199254740994'']
   \<and> map placeholder_number [js ''$9007199254740992'', js ''$9007199254740994'']
     = [9007199254740992, 9007199254740994]
   \<and> [Suc 9007199254740992..<Suc (9007199254740992 + 2)] = [9007199254740993, 9007199254740994]
   \<and> makePlaceholders_number digits MySQL 4294967296 0 = Inl (js ''Invalid array length'')"
proof -
  have u: "[0..<2] = [0, Suc 0]"
    by (simp add: upt_rec)
  have e: "js ''$'' @ js ''9007199254740992'' = js ''$9007199254740992''"
      "js ''$'' @ js ''9007199254740994'' = js ''$9007199254740994''"
    by (simp_all add: js_def)
  have "makePlaceholders_number digits Postgres 2 9007199254740992
     = Inr [js ''$'' @ digits 9007199254740992, js ''$'' @ digits 9007199254740994]"
    by (simp add: makePlaceholders_number_def u number_text_2_53_1 number_text_2_53_2)
  then have a: "makePlaceholders_number digits Postgres 2 9007199254740992
     = Inr [js ''$9007199254740992'', js ''$9007199254740994'']"
    by (simp only: digits_2_53 digits_2_53_2 e)
  have "map placeholder_number
          [js ''$'' @ digits 9007199254740992, js ''$'' @ digits 9007199254740994]
     = [9007199254740992, 9007199254740994]"
    by (simp only: list.map placeholder_number_dollar)
  then have b: "map placeholder_number [js ''$9007199254740992'', js ''$9007199254740994'']
     = [9007199254740992, 9007199254740994]"
    by (simp only: digits_2_53 digits_2_53_2 e)
  have c: "[Suc 9007199254740992..<Suc (9007199254740992 + 2)]
     = [9007199254740993, 9007199254740994]"
    by (simp add: upt_rec)
  have d: "makePlaceholders_number digits MySQL 4294967296 0 = Inl (js ''Invalid array length'')"
    by (simp add: makePlaceholders_number_def)
  have n: "(9007199254740992::nat) = 2 ^ 53" "(4294967296::nat) = 2 ^ 32"
    by simp_all
  show ?thesis
    using a b c d n by blast
qed

section \<open>The pool and the query runner\<close>

lemma issued_pool_call: "issued (snd (pool_call drv c s)) = issued s @ [c]"
  by (simp add: pool_call_def)


lemma fst_pool_call: "fst (pool_call drv c s) = fst (drv (database s) c)"
  by (simp add: pool_call_def)

lemma runQuery_eq:
  "runQuery db_type drv sql s =
     (case fst (drv (database s) (Stmt sql)) of
        Threw e \<Rightarrow> Inl e
      | Returned r \<Rightarrow>
          Inr \<lparr>columns = field_names (raw_fields r),
               rows = (if db_type = MySQL
                       then (case raw_rows r of RowArray rs \<Rightarrow> RowArray rs | _ \<Rightarrow> RowArray [])
                       else (case raw_rows r of NoRows \<Rightarrow> RowArray [] | x \<Rightarrow> x))\<rparr>,
      snd (pool_call drv (Stmt sql) s))"
  by (simp add: runQuery_def pool_call_def split: reply.splits)

lemma runQueryWithParams_eq:
  "runQueryWithParams db_type drv sql params s =
     (case fst (drv (database s) (StmtParams sql params)) of
        Threw e \<Rightarrow> Inl e
      | Returned r \<Rightarrow> Inr \<lparr>columns = field_names (raw_fields r), rows = raw_rows r\<rparr>,
      snd (pool_call drv (StmtParams sql params) s))"
  by (simp add: runQueryWithParams_def pool_call_def split: reply.splits)

section \<open>Dropping a table\<close>

lemma eliminarTabla_eq:
  "eliminarTabla db_type drv nombreTabla s =
     (if nombreTabla = [] then (err (js ''Debes proporcionar el nombre de la tabla.''), s)
      else (case fst (drv (database s) (Stmt (js ''DROP TABLE IF EXISTS '' @ quoteIdent db_type nombreTabla))) of
              Threw e \<Rightarrow> err (js ''Error al eliminar la tabla: '' @ e)
            | Returned r \<Rightarrow> ok (js ''Tabla '' @ apos @ nombreTabla @ apos @ js '' eliminada exitosamente.''),
            snd (pool_call drv (Stmt (js ''DROP TABLE IF EXISTS '' @ quoteIdent db_type nombreTabla)) s)))"
  by (simp add: eliminarTabla_def runQuery_eq split: reply.splits)









section \<open>Conditions and their placeholders\<close>

lemma length_map_index: "length (map_index f xs) = length xs"
  by (simp add: map_index_def)

lemma nth_map_index: "i < length xs \<Longrightarrow> map_index f xs ! i = f (xs ! i) i"
  by (simp add: map_index_def nth_enumerate_eq)

lemma single_placeholder:
  "makePlaceholders db_type 1 j ! 0 = (if db_type = MySQL then js ''?'' else js ''$'' @ digits (Suc j))"
  by (simp add: makePlaceholders_def)

lemma nth_makePlaceholders:
  "i < n \<Longrightarrow> makePlaceholders db_type n k ! i
     = (if db_type = MySQL then js ''?'' else js ''$'' @ digits (Suc (k + i)))"
  by (simp add: makePlaceholders_def add.commute)

lemma map_index_conditions:
  "map_index (\<lambda>col i. quoteIdent db_type col @ js '' = '' @ makePlaceholders db_type 1 (k + i) ! 0) cols
     = map2 (\<lambda>col p. quoteIdent db_type col @ js '' = '' @ p) cols
         (makePlaceholders db_type (length cols) k)"
  by (rule nth_equalityI)
     (simp_all add: length_map_index nth_map_index length_makePlaceholders single_placeholder
        nth_makePlaceholders)

lemma map_index_conditions0:
  "map_index (\<lambda>col i. quoteIdent db_type col @ js '' = '' @ makePlaceholders db_type 1 i ! 0) cols
     = map2 (\<lambda>col p. quoteIdent db_type col @ js '' = '' @ p) cols
         (makePlaceholders db_type (length cols) 0)"
  using map_index_conditions [of db_type 0 cols] by simp

section \<open>The destructive handlers\<close>

lemma snd_case_sum_pair:
  "snd (case p of (Inl e, s') \<Rightarrow> (f e, s') | (Inr r, s') \<Rightarrow> (g r, s')) = snd p"
  by (simp split: prod.splits sum.splits)

lemma snd_runQuery: "snd (runQuery db_type drv sql s) = snd (pool_call drv (Stmt sql) s)"
  by (simp add: runQuery_eq)

lemma snd_runQueryWithParams:
  "snd (runQueryWithParams db_type drv sql params s) = snd (pool_call drv (StmtParams sql params) s)"
  by (simp add: runQueryWithParams_eq)

lemma eliminarColumna_issued:
  "issued (snd (eliminarColumna db_type drv tabla columna s))
     = issued s @ (if tabla = [] \<or> columna = [] then []
                   else [Stmt (js ''ALTER TABLE '' @ quoteIdent db_type tabla @ js '' DROP COLUMN ''
                               @ quoteIdent db_type columna)])"
  by (simp add: eliminarColumna_def snd_case_sum_pair snd_runQuery issued_pool_call)

lemma eliminarRestriccionUnica_issued:
  "issued (snd (eliminarRestriccionUnica db_type drv tabla n s))
     = issued s @ (if tabla = [] \<or> n = [] then []
                   else [Stmt (js ''ALTER TABLE '' @ quoteIdent db_type tabla
                               @ (if db_type = MySQL then js '' DROP INDEX '' else js '' DROP CONSTRAINT '')
                               @ quoteIdent db_type n)])"
  by (simp add: eliminarRestriccionUnica_def Let_def snd_case_sum_pair snd_runQuery issued_pool_call)

lemma eliminarClaveForanea_issued:
  "issued (snd (eliminarClaveForanea db_type drv tabla n s))
     = issued s @ (if tabla = [] \<or> n = [] then []
                   else [Stmt (js ''ALTER TABLE '' @ quoteIdent db_type tabla
                               @ (if db_type = MySQL then js '' DROP FOREIGN KEY '' else js '' DROP CONSTRAINT '')
                               @ quoteIdent db_type n)])"
  by (simp add: eliminarClaveForanea_def Let_def snd_case_sum_pair snd_runQuery issued_pool_call)

lemma eliminarTabla_issued:
  "issued (snd (eliminarTabla db_type drv nombreTabla s))
     = issued s @ (if nombreTabla = [] then []
                   else [Stmt (js ''DROP TABLE IF EXISTS '' @ quoteIdent db_type nombreTabla)])"
  by (simp add: eliminarTabla_eq issued_pool_call)

lemma crud_delete_snd:
  "snd (crud_delete db_type drv tabla filtro s)
     = (if filtro = [] then s
        else snd (pool_call drv
               (StmtParams (js ''DELETE FROM '' @ quoteIdent db_type tabla @ js '' WHERE ''
                   @ join (js '' AND '')
                       (map2 (\<lambda>col p. quoteIdent db_type col @ js '' = '' @ p) (map fst filtro)
                          (makePlaceholders db_type (length filtro) 0)))
                  (map snd filtro)) s))"
  using map_index_conditions0 [of db_type "map fst filtro"]
  by (simp add: crud_delete_def Object_keys_def Object_values_def Let_def snd_case_sum_pair
      snd_runQueryWithParams)

lemma crudTabla_delete_issued:
  "issued (snd (crudTabla db_type rt drv tabla Delete datos filtro s))
     = issued s @
       (case filtro of
          Some (e # es) \<Rightarrow>
            (if tabla = [] then []
             else [StmtParams (js ''DELETE FROM '' @ quoteIdent db_type tabla @ js '' WHERE ''
                     @ join (js '' AND '')
                         (map2 (\<lambda>col p. quoteIdent db_type col @ js '' = '' @ p) (map fst (e # es))
                            (makePlaceholders db_type (length (e # es)) 0)))
                    (map snd (e # es))])
        | _ \<Rightarrow> [])"
  by (simp add: crudTabla_def crud_delete_snd issued_pool_call split: option.splits list.splits)

text \<open>
  Claim C1, as amended. None of the five destructive operations takes a confirmation
  string: the phrase exists only in the description that asks the calling agent to
  obtain it from the user. \<open>eliminarTabla\<close>, \<open>eliminarColumna\<close>,
  \<open>eliminarRestriccionUnica\<close> and \<open>eliminarClaveForanea\<close> hand exactly one statement to
  the pool when their name arguments are not empty, \<open>crudTabla\<close> with the action
  \<open>delete\<close> when the table name and the filter are not empty, and nothing otherwise.
\<close>

theorem destructive_handlers_need_only_names:
  "issued (snd (eliminarTabla db_type drv nombreTabla s))
     = issued s @ (if nombreTabla = [] then []
                   else [Stmt (js ''DROP TABLE IF EXISTS '' @ quoteIdent db_type nombreTabla)])
   \<and> issued (snd (eliminarColumna db_type drv tabla columna s))
     = issued s @ (if tabla = [] \<or> columna = [] then []
                   else [Stmt (js ''ALTER TABLE '' @ quoteIdent db_type tabla @ js '' DROP COLUMN ''
                               @ quoteIdent db_type columna)])
   \<and> issued (snd (eliminarRestriccionUnica db_type drv tabla n s))
     = issued s @ (if tabla = [] \<or> n = [] then []
                   else [Stmt (js ''ALTER TABLE '' @ quoteIdent db_type tabla
                               @ (if db_type = MySQL then js '' DROP INDEX '' else js '' DROP CONSTRAINT '')
                               @ quoteIdent db_type n)])
   \<and> issued (snd (eliminarClaveForanea db_type drv tabla n s))
     = issued s @ (if tabla = [] \<or> n = [] then []
                   else [Stmt (js ''ALTER TABLE '' @ quoteIdent db_type tabla
                               @ (if db_type = MySQL then js '' DROP FOREIGN KEY '' else js '' DROP CONSTRAINT '')
                               @ quoteIdent db_type n)])
   \<and> issued (snd (crudTabla db_type rt drv tabla Delete datos filtro s))
     = issued s @
       (case filtro of
          Some (e # es) \<Rightarrow>
            (if tabla = [] then []
             else [StmtParams (js ''DELETE FROM '' @ quoteIdent db_type tabla @ js '' WHERE ''
                     @ join (js '' AND '')
                         (map2 (\<lambda>col p. quoteIdent db_type col @ js '' = '' @ p) (map fst (e # es))
                            (makePlaceholders db_type (length (e # es)) 0)))
                    (map snd (e # es))])
        | _ \<Rightarrow> [])"
  using eliminarTabla_issued [of db_type drv nombreTabla s]
    eliminarColumna_issued [of db_type drv tabla columna s]
    eliminarRestriccionUnica_issued [of db_type drv tabla n s]
    eliminarClaveForanea_issued [of db_type drv tabla n s]
    crudTabla_delete_issued [of db_type rt drv tabla datos filtro s]
  by blast

text \<open>
  The claim as written fails: called with nothing but the name of an existing table,
  \<open>eliminarTabla\<close> drops it. The name is the only string the caller passes, and it is
  not the confirmation phrase.
\<close>

theorem eliminarTabla_runs_unconfirmed:
  "issued (snd (eliminarTabla MySQL toy_mysql (js ''products'') shop))
     = [Stmt (js ''DROP TABLE IF EXISTS '' @ [0x60] @ js ''products'' @ [0x60])]
   \<and> database shop = [js ''products'']
   \<and> database (snd (eliminarTabla MySQL toy_mysql (js ''products'') shop)) = []
   \<and> \<not> isError (fst (eliminarTabla MySQL toy_mysql (js ''products'') shop))
   \<and> js ''products'' \<noteq> confirmacion_eliminarTabla (js ''products'')"
  by (simp add: eliminarTabla_eq pool_call_def toy_mysql_def shop_def quoteIdent_def js_def
      ok_def confirmacion_eliminarTabla_def)

theorem destructive_handlers_need_only_names_witness:
  "issued (snd (eliminarColumna Postgres toy_pg (js ''products'') (js ''id'') shop))
     = [Stmt (js ''ALTER TABLE '' @ [0x22] @ js ''products'' @ [0x22] @ js '' DROP COLUMN ''
              @ [0x22] @ js ''id'' @ [0x22])]
   \<and> issued (snd (eliminarClaveForanea MySQL toy_mysql (js ''products'') [] shop)) = []
   \<and> issued (snd (crudTabla MySQL plain_runtime toy_mysql (js ''products'') Delete None
                     (Some [(js ''id'', JOther ())]) shop))
     = [StmtParams (js ''DELETE FROM '' @ [0x60] @ js ''products'' @ [0x60] @ js '' WHERE ''
                    @ [0x60] @ js ''id'' @ [0x60] @ js '' = ?'') [JOther ()]]"
  using destructive_handlers_need_only_names
      [of Postgres toy_pg "[]" shop "js ''products''" "js ''id''" "[]" plain_runtime None None]
    destructive_handlers_need_only_names
      [of MySQL toy_mysql "[]" shop "js ''products''" "[]" "[]" plain_runtime None
          "Some [(js ''id'', JOther ())]"]
  by (simp add: shop_def quoteIdent_def js_def makePlaceholders_def)

section \<open>The generic handler\<close>

lemma crud_create_snd:
  "snd (crud_create db_type drv tabla datos s)
     = snd (pool_call drv (StmtParams (insert_sql db_type tabla (map fst datos) (length datos))
                             (map snd datos)) s)"
  by (simp add: crud_create_def Object_keys_def Object_values_def Let_def snd_case_sum_pair
      snd_runQueryWithParams)

lemma crud_read_snd:
  "snd (crud_read db_type rt drv tabla [] s)
     = snd (pool_call drv (StmtParams (js ''SELECT * FROM '' @ quoteIdent db_type tabla @ js '' '') []) s)"
  by (simp add: crud_read_def Object_keys_def Object_values_def Let_def snd_case_sum_pair
      snd_runQueryWithParams)

lemma crud_update_snd:
  "snd (crud_update db_type drv tabla datos filtro s)
     = (if filtro = [] then s
        else snd (pool_call drv
               (StmtParams (js ''UPDATE '' @ quoteIdent db_type tabla @ js '' SET ''
                   @ join (js '', '')
                       (map2 (\<lambda>col p. quoteIdent db_type col @ js '' = '' @ p) (map fst datos)
                          (makePlaceholders db_type (length datos) 0))
                   @ js '' WHERE ''
                   @ join (js '' AND '')
                       (map2 (\<lambda>col p. quoteIdent db_type col @ js '' = '' @ p) (map fst filtro)
                          (makePlaceholders db_type (length filtro) (length datos))))
                  (map snd datos @ map snd filtro)) s))"
  using map_index_conditions0 [of db_type "map fst datos"]
    map_index_conditions [of db_type "length datos" "map fst filtro"]
  by (simp add: crud_update_def Object_keys_def Object_values_def Let_def snd_case_sum_pair
      snd_runQueryWithParams)

lemma crud_update_rejects: "isError (fst (crud_update db_type drv tabla datos [] s))"
  by (simp add: crud_update_def Object_keys_def err_def)

lemma crud_delete_rejects: "isError (fst (crud_delete db_type drv tabla [] s))"
  by (simp add: crud_delete_def Object_keys_def err_def)

text \<open>
  Claim C6 fails on an empty object. \<open>!datos\<close> is false for \<open>{}\<close>, so the create branch
  builds and runs an INSERT with no column and no value, and the update branch an
  UPDATE with an empty SET clause.
\<close>

theorem crudTabla_runs_with_empty_datos:
  "issued (snd (crudTabla MySQL plain_runtime toy_mysql (js ''products'') Create (Some []) None shop))
     = [StmtParams (js ''INSERT INTO '' @ [0x60] @ js ''products'' @ [0x60] @ js '' () VALUES ()'') []]
   \<and> fst (crudTabla MySQL plain_runtime toy_mysql (js ''products'') Create (Some []) None shop)
     = ok (js ''Registro creado exitosamente.'')
   \<and> issued (snd (crudTabla MySQL plain_runtime toy_mysql (js ''products'') Update (Some [])
                     (Some [(js ''id'', JOther ())]) shop))
     = [StmtParams (js ''UPDATE '' @ [0x60] @ js ''products'' @ [0x60] @ js '' SET  WHERE ''
                    @ [0x60] @ js ''id'' @ [0x60] @ js '' = ?'') [JOther ()]]"
  by (simp add: crudTabla_def crud_create_snd crud_update_snd crud_create_def insert_sql_def
      Object_keys_def Object_values_def runQueryWithParams_eq
      pool_call_def toy_mysql_def shop_def quoteIdent_def js_def makePlaceholders_def)

text \<open>
  Every request is first checked for a table name (\<open>!tabla\<close>); one without it is
  rejected before any branch is entered.
\<close>

lemma crudTabla_without_table:
  "crudTabla db_type rt drv [] acc datos filtro s
     = (err (js ''Debes especificar la tabla y la acci'' @ [0xF3] @ js ''n.''), s)"
  by (simp add: crudTabla_def)

text \<open>
  Claim C5, as amended. An update or a delete whose filter is absent or empty is
  answered with an error envelope and leaves the pool untouched: no statement is built
  or handed to the driver, whatever the other arguments are. A read whose filter is
  absent or empty, for a table name that is not empty, hands the pool one SELECT over
  the whole table, with no WHERE clause and no bound value.
\<close>

theorem crudTabla_empty_filter:
  "filtro = None \<or> filtro = Some [] \<Longrightarrow>
   ((acc = Update \<or> acc = Delete) \<longrightarrow>
      isError (fst (crudTabla db_type rt drv tabla acc datos filtro s))
      \<and> snd (crudTabla db_type rt drv tabla acc datos filtro s) = s)
   \<and> (acc = Read \<and> tabla \<noteq> [] \<longrightarrow>
      snd (crudTabla db_type rt drv tabla acc datos filtro s)
        = snd (pool_call drv (StmtParams (js ''SELECT * FROM '' @ quoteIdent db_type tabla @ js '' '') []) s)
      \<and> issued (snd (crudTabla db_type rt drv tabla acc datos filtro s))
        = issued s @ [StmtParams (js ''SELECT * FROM '' @ quoteIdent db_type tabla @ js '' '') []])"
proof -
  assume f: "filtro = None \<or> filtro = Some []"
  then have e: "(case filtro of None \<Rightarrow> [] | Some f \<Rightarrow> f) = []"
    by auto
  have "isError (fst (crudTabla db_type rt drv tabla acc datos filtro s))
        \<and> snd (crudTabla db_type rt drv tabla acc datos filtro s) = s"
    if "acc = Update \<or> acc = Delete"
    using that e
    by (auto simp add: crudTabla_def crud_update_rejects crud_delete_rejects crud_update_snd
        crud_delete_snd err_def)
  moreover have "snd (crudTabla db_type rt drv tabla acc datos filtro s)
        = snd (pool_call drv (StmtParams (js ''SELECT * FROM '' @ quoteIdent db_type tabla @ js '' '') []) s)"
    if "acc = Read \<and> tabla \<noteq> []"
    using that e by (simp add: crudTabla_def crud_read_snd)
  ultimately show ?thesis
    by (simp add: issued_pool_call)
qed

theorem crudTabla_empty_filter_witness:
  "isError (fst (crudTabla MySQL plain_runtime toy_mysql (js ''products'') Delete None None shop))
   \<and> snd (crudTabla MySQL plain_runtime toy_mysql (js ''products'') Delete None None shop) = shop
   \<and> isError (fst (crudTabla MySQL plain_runtime toy_mysql (js ''products'') Update
                     (Some [(js ''id'', JOther ())]) (Some []) shop))
   \<and> issued (snd (crudTabla MySQL plain_runtime toy_mysql (js ''products'') Read None (Some []) shop))
     = [StmtParams (js ''SELECT * FROM '' @ [0x60] @ js ''products'' @ [0x60] @ js '' '') []]"
  using crudTabla_empty_filter [of None Delete MySQL plain_runtime toy_mysql "js ''products''" None shop]
    crudTabla_empty_filter [of "Some []" Update MySQL plain_runtime toy_mysql "js ''products''"
      "Some [(js ''id'', JOther ())]" shop]
    crudTabla_empty_filter [of "Some []" Read MySQL plain_runtime toy_mysql "js ''products''" None shop]
  by (simp add: shop_def quoteIdent_def js_def issued_pool_call)

text \<open>
  The claim as written fails for a read without a table name: it is rejected and no
  SELECT is built.
\<close>

theorem crudTabla_read_without_table:
  "crudTabla MySQL plain_runtime toy_mysql [] Read None None shop
     = (err (js ''Debes especificar la tabla y la acci'' @ [0xF3] @ js ''n.''), shop)
   \<and> issued (snd (crudTabla MySQL plain_runtime toy_mysql [] Read None None shop))
     \<noteq> issued shop @ [StmtParams (js ''SELECT * FROM '' @ quoteIdent MySQL [] @ js '' '') []]"
  by (simp add: crudTabla_def)

section \<open>The UPDATE statement\<close>

lemma makePlaceholders_append:
  "makePlaceholders Postgres d 0 @ makePlaceholders Postgres f d = makePlaceholders Postgres (d + f) 0"
proof -
  have "[Suc 0..<Suc d] @ [Suc d..<Suc (d + f)] = [Suc 0..<Suc (d + f)]"
    using upt_add_eq_append [of "Suc 0" "Suc d" f] by simp
  then show ?thesis
    by (simp add: makePlaceholders_Postgres flip: map_append)
qed

lemma distinct_makePlaceholders: "distinct (makePlaceholders Postgres n k)"
proof -
  have "inj_on (\<lambda>m. js ''$'' @ digits m) A" for A
    by (rule inj_onI) (simp add: digits_inject)
  then show ?thesis
    by (simp add: makePlaceholders_Postgres distinct_map)
qed

text \<open>
  Claim C3, as amended. For a table name that is not empty, data of size \<open>d > 0\<close> and a
  filter of size \<open>f > 0\<close>, the update hands the pool exactly one call: an UPDATE whose SET
  clause pairs the keys of the data with the placeholders of offset 0 and whose WHERE
  clause pairs the keys of the filter with the placeholders of offset \<open>d\<close>, bound to the
  values of the data followed by the values of the filter, \<open>d + f\<close> in all, each group
  in the order of its keys. On the numbered dialect the WHERE placeholders carry the
  numbers \<open>d+1, ..., d+f\<close>; the two groups together are the placeholders \<open>1, ..., d+f\<close>
  and no token occurs twice.
\<close>

theorem crudTabla_update_statement:
  "tabla \<noteq> [] \<Longrightarrow> datos \<noteq> [] \<Longrightarrow> filtro \<noteq> [] \<Longrightarrow>
   issued (snd (crudTabla db_type rt drv tabla Update (Some datos) (Some filtro) s))
     = issued s @
       [StmtParams
          (js ''UPDATE '' @ quoteIdent db_type tabla @ js '' SET ''
           @ join (js '', '')
               (map2 (\<lambda>col p. quoteIdent db_type col @ js '' = '' @ p) (map fst datos)
                  (makePlaceholders db_type (length datos) 0))
           @ js '' WHERE ''
           @ join (js '' AND '')
               (map2 (\<lambda>col p. quoteIdent db_type col @ js '' = '' @ p) (map fst filtro)
                  (makePlaceholders db_type (length filtro) (length datos))))
          (map snd datos @ map snd filtro)]
   \<and> length (map snd datos @ map snd filtro) = length datos + length filtro
   \<and> map placeholder_number (makePlaceholders Postgres (length filtro) (length datos))
       = [Suc (length datos)..<Suc (length datos + length filtro)]
   \<and> makePlaceholders Postgres (length datos) 0 @ makePlaceholders Postgres (length filtro) (length datos)
       = makePlaceholders Postgres (length datos + length filtro) 0
   \<and> distinct (makePlaceholders Postgres (length datos) 0
                 @ makePlaceholders Postgres (length filtro) (length datos))"
proof -
  assume t: "tabla \<noteq> []" and f: "filtro \<noteq> []"
  have "snd (crudTabla db_type rt drv tabla Update (Some datos) (Some filtro) s)
          = snd (crud_update db_type drv tabla datos filtro s)"
    using t by (simp add: crudTabla_def)
  then have "issued (snd (crudTabla db_type rt drv tabla Update (Some datos) (Some filtro) s))
     = issued s @
       [StmtParams
          (js ''UPDATE '' @ quoteIdent db_type tabla @ js '' SET ''
           @ join (js '', '')
               (map2 (\<lambda>col p. quoteIdent db_type col @ js '' = '' @ p) (map fst datos)
                  (makePlaceholders db_type (length datos) 0))
           @ js '' WHERE ''
           @ join (js '' AND '')
               (map2 (\<lambda>col p. quoteIdent db_type col @ js '' = '' @ p) (map fst filtro)
                  (makePlaceholders db_type (length filtro) (length datos))))
          (map snd datos @ map snd filtro)]"
    using f by (simp add: crud_update_snd issued_pool_call)
  moreover have "distinct (makePlaceholders Postgres (length datos) 0
                 @ makePlaceholders Postgres (length filtro) (length datos))"
    by (simp only: makePlaceholders_append distinct_makePlaceholders)
  ultimately show ?thesis
    using numbers_makePlaceholders [of "length filtro" "length datos"]
      makePlaceholders_append [of "length datos" "length filtro"]
    by simp
qed

theorem crudTabla_update_statement_witness:
  "js ''customers'' \<noteq> []
   \<and> issued (snd (crudTabla Postgres plain_runtime toy_pg (js ''customers'') Update
                     (Some [(js ''email'', JString (js ''a@b.com''))])
                     (Some [(js ''id'', JOther ())]) shop))
     = [StmtParams (js ''UPDATE '' @ [0x22] @ js ''customers'' @ [0x22] @ js '' SET ''
                    @ [0x22] @ js ''email'' @ [0x22] @ js '' = $1 WHERE ''
                    @ [0x22] @ js ''id'' @ [0x22] @ js '' = $2'')
          [JString (js ''a@b.com''), JOther ()]]"
  using crudTabla_update_statement [of "js ''customers''" "[(js ''email'', JString (js ''a@b.com''))]"
      "[(js ''id'', JOther ())]" Postgres plain_runtime toy_pg shop]
  by (simp add: shop_def quoteIdent_def js_def makePlaceholders_def digits.simps digit_def)

text \<open>
  The claim as written fails for an update without a table name: it is rejected and no
  UPDATE is built.
\<close>

theorem crudTabla_update_without_table:
  "crudTabla Postgres plain_runtime toy_pg [] Update
      (Some [(js ''email'', JString (js ''a@b.com''))]) (Some [(js ''id'', JOther ())]) shop
     = (err (js ''Debes especificar la tabla y la acci'' @ [0xF3] @ js ''n.''), shop)
   \<and> issued (snd (crudTabla Postgres plain_runtime toy_pg [] Update
      (Some [(js ''email'', JString (js ''a@b.com''))]) (Some [(js ''id'', JOther ())]) shop)) = []"
  by (simp add: crudTabla_def shop_def)

section \<open>The read-only guard\<close>

lemma is_ws_outside_letters: "is_ws c \<Longrightarrow> c < 0x41 \<or> 0x7A < c"
  unfolding is_ws_def by (elim insertE emptyE) simp_all

lemma canonicalize_select:
  "x \<in> set (js ''select'') \<Longrightarrow> 0x41 \<le> canonicalize x \<and> canonicalize x \<le> 0x5A"
  by (auto simp add: js_def canonicalize_def)

lemma canonicalize_outside_letters: "c < 0x41 \<or> 0x7A < c \<Longrightarrow> canonicalize c = c"
  unfolding canonicalize_def by (auto simp add: word_less_nat_alt word_le_nat_alt)

lemma select_not_ws:
  "x \<in> set (js ''select'') \<Longrightarrow> is_ws c \<Longrightarrow> canonicalize x \<noteq> canonicalize c"
proof
  assume x: "x \<in> set (js ''select'')" and c: "is_ws c"
    and e: "canonicalize x = canonicalize c"
  have o: "c < 0x41 \<or> 0x7A < c"
    using c by (rule is_ws_outside_letters)
  then have "canonicalize c = c"
    by (rule canonicalize_outside_letters)
  with e canonicalize_select [OF x] have "0x41 \<le> c \<and> c \<le> 0x5A"
    by simp
  with o show False
    by (auto simp add: word_less_nat_alt word_le_nat_alt)
qed

lemma match_ci_ws:
  "\<forall>x\<in>set p. \<forall>c. is_ws c \<longrightarrow> canonicalize x \<noteq> canonicalize c \<Longrightarrow> p \<noteq> [] \<Longrightarrow> is_ws c
     \<Longrightarrow> \<not> match_ci p (c # cs)"
  by (cases p) auto

lemma trim_end_Cons:
  "rev (dropWhile P (rev cs @ [c]))
     = (if rev (dropWhile P (rev cs)) = [] then (if P c then [] else [c])
        else c # rev (dropWhile P (rev cs)))"
  by (auto simp add: dropWhile_append dropWhile_eq_Nil_conv)

lemma match_ci_trim_end:
  "\<forall>x\<in>set p. \<forall>c. is_ws c \<longrightarrow> canonicalize x \<noteq> canonicalize c
     \<Longrightarrow> match_ci p (rev (dropWhile is_ws (rev t))) = match_ci p t"
proof (induction p t rule: match_ci.induct)
  case (1 t)
  show ?case by simp
next
  case (2 p ps)
  show ?case by simp
next
  case (3 p ps c cs)
  then have ih: "match_ci ps (rev (dropWhile is_ws (rev cs))) = match_ci ps cs"
    by simp
  have ws: "is_ws c \<Longrightarrow> canonicalize p \<noteq> canonicalize c"
    using 3(2) by simp
  show ?case
  proof (cases "rev (dropWhile is_ws (rev cs)) = []")
    case True
    have te: "rev (dropWhile is_ws (rev cs @ [c])) = (if is_ws c then [] else [c])"
      using True by (simp only: trim_end_Cons simp_thms if_True)
    show ?thesis
      using ws ih [unfolded True] by (auto simp add: te)
  next
    case False
    have te: "rev (dropWhile is_ws (rev cs @ [c])) = c # rev (dropWhile is_ws (rev cs))"
      using False by (simp only: trim_end_Cons simp_thms if_False)
    show ?thesis
      using ih by (simp add: te)
  qed
qed

lemma spec_select_pattern_dropWhile:
  "spec_select_pattern s = re_select_i (dropWhile is_ws s)"
proof (induction s)
  case Nil
  show ?case by simp
next
  case (Cons c cs)
  have "is_ws c \<Longrightarrow> \<not> re_select_i (c # cs)"
    unfolding re_select_i_def
    by (rule match_ci_ws) (auto simp add: select_not_ws, simp add: js_def)
  then show ?case
    using Cons by auto
qed

lemma re_select_i_trim: "re_select_i (trim s) = spec_select_pattern s"
  unfolding trim_def spec_select_pattern_dropWhile re_select_i_def
  by (rule match_ci_trim_end) (simp add: select_not_ws)

text \<open>
  Claim C2. The test of the handler, \<open>/^select/i\<close> on the trimmed text, accepts exactly
  the inputs that match \<open>^\s*select\<close> case-insensitively. An input that does not match
  is answered with the error envelope and nothing reaches the pool; an input that
  matches is handed to the pool as it was received.
\<close>

theorem consultarSQL_guard:
  "(\<not> spec_select_pattern consulta \<longrightarrow>
      consultarSQL db_type rt drv consulta s = (err (js ''Solo se permiten consultas SELECT.''), s))
   \<and> (spec_select_pattern consulta \<longrightarrow>
      snd (consultarSQL db_type rt drv consulta s) = snd (pool_call drv (Stmt consulta) s)
      \<and> issued (snd (consultarSQL db_type rt drv consulta s)) = issued s @ [Stmt consulta])"
proof -
  have "snd (consultarSQL db_type rt drv consulta s) = snd (pool_call drv (Stmt consulta) s)"
    if "spec_select_pattern consulta"
    using that
    by (simp add: consultarSQL_def re_select_i_trim runQuery_eq Let_def
        split: reply.splits rowsval.splits)
  then show ?thesis
    by (simp add: consultarSQL_def re_select_i_trim issued_pool_call)
qed

theorem consultarSQL_guard_witness:
  "\<not> spec_select_pattern (js ''DROP TABLE products'')
   \<and> consultarSQL MySQL plain_runtime toy_mysql (js ''DROP TABLE products'') shop
       = (err (js ''Solo se permiten consultas SELECT.''), shop)
   \<and> spec_select_pattern ([0x0A, 0x20] @ js ''SeLeCt * FROM products '')
   \<and> issued (snd (consultarSQL MySQL plain_runtime toy_mysql
                     ([0x0A, 0x20] @ js ''SeLeCt * FROM products '') shop))
       = [Stmt ([0x0A, 0x20] @ js ''SeLeCt * FROM products '')]"
proof -
  have a: "\<not> spec_select_pattern (js ''DROP TABLE products'')"
    by (simp add: js_def re_select_i_def is_ws_def canonicalize_def)
  have b: "spec_select_pattern ([0x0A, 0x20] @ js ''SeLeCt * FROM products '')"
    by (simp add: js_def re_select_i_def is_ws_def canonicalize_def)
  show ?thesis
    using a b consultarSQL_guard [of "js ''DROP TABLE products''" MySQL plain_runtime toy_mysql shop]
      consultarSQL_guard [of "[0x0A, 0x20] @ js ''SeLeCt * FROM products ''" MySQL plain_runtime
        toy_mysql shop]
    by (simp add: shop_def issued_pool_call)
qed

section \<open>Listing columns and creating a table\<close>

lemma snd_getTableColumns:
  "snd (getTableColumns db_type drv table s)
     = snd (pool_call drv (if db_type = MySQL then Stmt (show_columns_sql table)
                           else StmtParams information_schema_sql [JString table]) s)"
  by (simp add: getTableColumns_def getTableColumns_try_def pool_call_def
      split: reply.splits rowsval.splits)

lemma getTableColumns_total: "\<not> isl (fst (getTableColumns db_type drv table s))"
  by (simp add: getTableColumns_def split: prod.splits sum.splits)

lemma getTableColumns_MySQL_Threw:
  "fst (drv (database s) (Stmt (show_columns_sql table))) = Threw e
     \<Longrightarrow> fst (getTableColumns MySQL drv table s) = Inr []"
  by (simp add: getTableColumns_def getTableColumns_try_def pool_call_def)

lemma getTableColumns_Postgres_Threw:
  "fst (drv (database s) (StmtParams information_schema_sql [JString table])) = Threw e
     \<Longrightarrow> fst (getTableColumns Postgres drv table s) = Inr []"
  by (simp add: getTableColumns_def getTableColumns_try_def pool_call_def)

lemma getTableColumns_Postgres_no_rows:
  "fst (drv (database s) (StmtParams information_schema_sql [JString table])) = Returned r
     \<Longrightarrow> raw_rows r = RowArray []
     \<Longrightarrow> fst (getTableColumns Postgres drv table s) = Inr []"
  by (simp add: getTableColumns_def getTableColumns_try_def pool_call_def)

lemma columnasDeTabla_no_columns:
  "fst (getTableColumns db_type drv tabla s) = Inr []
     \<Longrightarrow> fst (columnasDeTabla db_type rt drv tabla s)
         = ok (js ''La tabla '' @ apos @ tabla @ apos @ js '' no tiene columnas.'')"
  by (cases "getTableColumns db_type drv tabla s") (simp add: columnasDeTabla_def)

lemma columnasDeTabla_no_error: "\<not> isError (fst (columnasDeTabla db_type rt drv tabla s))"
  using getTableColumns_total [of db_type drv tabla s]
  by (cases "getTableColumns db_type drv tabla s")
     (auto simp add: columnasDeTabla_def ok_def split: sum.splits)

text \<open>
  Claim C7. \<open>getTableColumns\<close> never throws, for any table name, driver and database:
  its result is always an array. When the table does not exist, which MySQL reports by
  throwing on \<open>SHOW COLUMNS\<close> and PostgreSQL by returning no row from
  \<open>information_schema.columns\<close>, the array is empty. \<open>columnasDeTabla\<close> then answers
  that the table has no columns, and never with an error envelope.
\<close>

theorem getTableColumns_never_raises:
  "\<not> isl (fst (getTableColumns db_type drv table s))
   \<and> (\<forall>e. fst (drv (database s) (Stmt (show_columns_sql table))) = Threw e
          \<longrightarrow> fst (getTableColumns MySQL drv table s) = Inr [])
   \<and> (\<forall>e. fst (drv (database s) (StmtParams information_schema_sql [JString table])) = Threw e
          \<longrightarrow> fst (getTableColumns Postgres drv table s) = Inr [])
   \<and> (\<forall>r. fst (drv (database s) (StmtParams information_schema_sql [JString table])) = Returned r
            \<and> raw_rows r = RowArray []
          \<longrightarrow> fst (getTableColumns Postgres drv table s) = Inr [])
   \<and> (fst (getTableColumns db_type drv table s) = Inr []
          \<longrightarrow> fst (columnasDeTabla db_type rt drv table s)
              = ok (js ''La tabla '' @ apos @ table @ apos @ js '' no tiene columnas.''))
   \<and> \<not> isError (fst (columnasDeTabla db_type rt drv table s))"
  using getTableColumns_total [of db_type drv table s]
    getTableColumns_MySQL_Threw [of drv s table]
    getTableColumns_Postgres_Threw [of drv s table]
    getTableColumns_Postgres_no_rows [of drv s table]
    columnasDeTabla_no_columns [of db_type drv table s rt]
    columnasDeTabla_no_error [of db_type rt drv table s]
  by blast

theorem getTableColumns_never_raises_witness:
  "js ''ghost'' \<notin> set (database shop)
   \<and> fst (toy_mysql (database shop) (Stmt (show_columns_sql (js ''ghost''))))
       = Threw (js ''Table does not exist'')
   \<and> fst (getTableColumns MySQL toy_mysql (js ''ghost'') shop) = Inr []
   \<and> fst (toy_pg (database shop) (StmtParams information_schema_sql [JString (js ''ghost'')]))
       = Returned no_rows
   \<and> fst (getTableColumns Postgres toy_pg (js ''ghost'') shop) = Inr []
   \<and> fst (columnasDeTabla MySQL plain_runtime toy_mysql (js ''ghost'') shop)
       = ok (js ''La tabla '' @ [0x27] @ js ''ghost'' @ [0x27] @ js '' no tiene columnas.'')"
proof -
  have m: "fst (toy_mysql (database shop) (Stmt (show_columns_sql (js ''ghost''))))
       = Threw (js ''Table does not exist'')"
    by (simp add: toy_mysql_def shop_def show_columns_sql_def js_def)
  have p: "fst (toy_pg (database shop) (StmtParams information_schema_sql [JString (js ''ghost'')]))
       = Returned no_rows"
    by (simp add: toy_pg_def shop_def js_def)
  have g: "js ''ghost'' \<notin> set (database shop)"
    by (simp add: shop_def js_def)
  show ?thesis
    using m p g
      getTableColumns_never_raises [of MySQL toy_mysql "js ''ghost''" shop plain_runtime]
      getTableColumns_never_raises [of Postgres toy_pg "js ''ghost''" shop plain_runtime]
    by (simp add: no_rows_def apos_def)
qed

lemma crearTabla_exists:
  "nombreTabla \<noteq> [] \<Longrightarrow> columnas \<noteq> [] \<Longrightarrow> fst (getTableColumns db_type drv nombreTabla s) = Inr (c # cs)
     \<Longrightarrow> crearTabla db_type drv nombreTabla columnas s
         = (ok (js ''La tabla '' @ apos @ nombreTabla @ apos @ js '' ya existe. No es necesario crearla.''),
            snd (getTableColumns db_type drv nombreTabla s))"
  by (cases "getTableColumns db_type drv nombreTabla s") (simp add: crearTabla_def)

lemma crearTabla_absent:
  "nombreTabla \<noteq> [] \<Longrightarrow> columnas \<noteq> [] \<Longrightarrow> fst (getTableColumns db_type drv nombreTabla s) = Inr []
     \<Longrightarrow> crearTabla db_type drv nombreTabla columnas s
         = (case fst (drv (database (snd (getTableColumns db_type drv nombreTabla s)))
                        (Stmt (create_table_sql db_type nombreTabla columnas))) of
              Returned r \<Rightarrow> ok (js ''Tabla creada exitosamente.'')
            | Threw e \<Rightarrow> err (js ''Error al crear la tabla: '' @ e),
            snd (pool_call drv (Stmt (create_table_sql db_type nombreTabla columnas))
                   (snd (getTableColumns db_type drv nombreTabla s))))"
  by (cases "getTableColumns db_type drv nombreTabla s")
     (simp add: crearTabla_def runQuery_eq split: reply.splits)

text \<open>
  Claim C8, as amended. Take an invocation of \<open>crearTabla\<close> with a table name and at
  least one column definition. If the probe returns a non-empty column list, the answer
  is the "already exists" message and the probe is the only call made: no CREATE TABLE
  is issued. If the probe returns the empty list, exactly one CREATE TABLE statement,
  composed from the supplied name/type pairs, follows the probe, and the answer is the
  success confirmation when the driver completes that statement, and the error envelope
  with the driver's text when it throws.
\<close>

theorem crearTabla_probe_then_create:
  "nombreTabla \<noteq> [] \<Longrightarrow> columnas \<noteq> [] \<Longrightarrow>
   (\<forall>c cs. fst (getTableColumns db_type drv nombreTabla s) = Inr (c # cs) \<longrightarrow>
      fst (crearTabla db_type drv nombreTabla columnas s)
        = ok (js ''La tabla '' @ apos @ nombreTabla @ apos @ js '' ya existe. No es necesario crearla.'')
      \<and> issued (snd (crearTabla db_type drv nombreTabla columnas s))
        = issued s @ [if db_type = MySQL then Stmt (show_columns_sql nombreTabla)
                      else StmtParams information_schema_sql [JString nombreTabla]])
   \<and> (fst (getTableColumns db_type drv nombreTabla s) = Inr [] \<longrightarrow>
      issued (snd (crearTabla db_type drv nombreTabla columnas s))
        = issued s @ [if db_type = MySQL then Stmt (show_columns_sql nombreTabla)
                      else StmtParams information_schema_sql [JString nombreTabla],
                      Stmt (create_table_sql db_type nombreTabla columnas)]
      \<and> fst (crearTabla db_type drv nombreTabla columnas s)
        = (case fst (drv (database (snd (getTableColumns db_type drv nombreTabla s)))
                       (Stmt (create_table_sql db_type nombreTabla columnas))) of
             Returned r \<Rightarrow> ok (js ''Tabla creada exitosamente.'')
           | Threw e \<Rightarrow> err (js ''Error al crear la tabla: '' @ e)))"
proof -
  assume n: "nombreTabla \<noteq> []" and c: "columnas \<noteq> []"
  have i: "issued (snd (getTableColumns db_type drv nombreTabla s))
      = issued s @ [if db_type = MySQL then Stmt (show_columns_sql nombreTabla)
                    else StmtParams information_schema_sql [JString nombreTabla]]"
    by (simp only: snd_getTableColumns issued_pool_call)
  show ?thesis
    using crearTabla_exists [OF n c, of db_type drv s] crearTabla_absent [OF n c, of db_type drv s] i
    by (auto simp add: issued_pool_call)
qed

theorem crearTabla_probe_then_create_witness:
  "issued (snd (crearTabla MySQL toy_mysql (js ''products'')
                  [\<lparr>nombre = js ''id'', tipo = js ''INT PRIMARY KEY''\<rparr>,
                   \<lparr>nombre = js ''name'', tipo = js ''VARCHAR(100)''\<rparr>] empty_shop))
     = [Stmt (js ''SHOW COLUMNS FROM '' @ [0x60] @ js ''products'' @ [0x60]),
        Stmt (js ''CREATE TABLE '' @ [0x60] @ js ''products'' @ [0x60] @ js '' ('' @ [0x0A]
              @ [0x60] @ js ''id'' @ [0x60] @ js '' INT PRIMARY KEY,'' @ [0x0A]
              @ [0x60] @ js ''name'' @ [0x60] @ js '' VARCHAR(100)'' @ [0x0A] @ js '')'')]
   \<and> fst (crearTabla MySQL toy_mysql (js ''products'')
                  [\<lparr>nombre = js ''id'', tipo = js ''INT PRIMARY KEY''\<rparr>,
                   \<lparr>nombre = js ''name'', tipo = js ''VARCHAR(100)''\<rparr>] empty_shop)
     = ok (js ''Tabla creada exitosamente.'')
   \<and> issued (snd (crearTabla MySQL toy_mysql (js ''products'')
                  [\<lparr>nombre = js ''id'', tipo = js ''INT PRIMARY KEY''\<rparr>,
                   \<lparr>nombre = js ''name'', tipo = js ''VARCHAR(100)''\<rparr>] shop))
     = [Stmt (js ''SHOW COLUMNS FROM '' @ [0x60] @ js ''products'' @ [0x60])]
   \<and> fst (crearTabla MySQL toy_mysql (js ''products'')
                  [\<lparr>nombre = js ''id'', tipo = js ''INT PRIMARY KEY''\<rparr>,
                   \<lparr>nombre = js ''name'', tipo = js ''VARCHAR(100)''\<rparr>] shop)
     = ok (js ''La tabla '' @ [0x27] @ js ''products'' @ [0x27]
           @ js '' ya existe. No es necesario crearla.'')"
proof -
  have absent: "fst (getTableColumns MySQL toy_mysql (js ''products'') empty_shop) = Inr []"
    by (simp add: getTableColumns_def getTableColumns_try_def pool_call_def toy_mysql_def
        empty_shop_def show_columns_sql_def js_def)
  have present: "fst (getTableColumns MySQL toy_mysql (js ''products'') shop)
      = Inr [JString (js ''id'')]"
    by (simp add: getTableColumns_def getTableColumns_try_def pool_call_def toy_mysql_def
        shop_def show_columns_sql_def id_column_def get_prop_def js_def)
  have after: "database (snd (getTableColumns MySQL toy_mysql (js ''products'') empty_shop)) = []"
    by (simp add: snd_getTableColumns pool_call_def toy_mysql_def empty_shop_def
        show_columns_sql_def js_def)
  show ?thesis
    using absent present after
      crearTabla_probe_then_create [of "js ''products''"
        "[\<lparr>nombre = js ''id'', tipo = js ''INT PRIMARY KEY''\<rparr>,
          \<lparr>nombre = js ''name'', tipo = js ''VARCHAR(100)''\<rparr>]" MySQL toy_mysql empty_shop]
      crearTabla_probe_then_create [of "js ''products''"
        "[\<lparr>nombre = js ''id'', tipo = js ''INT PRIMARY KEY''\<rparr>,
          \<lparr>nombre = js ''name'', tipo = js ''VARCHAR(100)''\<rparr>]" MySQL toy_mysql shop]
    by (simp add: create_table_sql_def quoteIdent_def show_columns_sql_def toy_mysql_def
        empty_shop_def shop_def apos_def js_def)
qed

text \<open>
  The claim as written fails for an invocation without column definitions: the table
  exists, its probe would return a column, and yet the answer is the validation error,
  given before the probe is made.
\<close>

theorem crearTabla_without_columns:
  "fst (getTableColumns MySQL toy_mysql (js ''products'') shop) = Inr [JString (js ''id'')]
   \<and> crearTabla MySQL toy_mysql (js ''products'') [] shop
     = (err (js ''Debes proporcionar un nombre de tabla y al menos una columna.''), shop)"
  by (simp add: crearTabla_def getTableColumns_def getTableColumns_try_def pool_call_def
      toy_mysql_def shop_def show_columns_sql_def id_column_def get_prop_def js_def)

section \<open>The insertion loops\<close>






lemma importarTabla_calls_append:
  "Parsed_null \<notin> set pre \<Longrightarrow>
   importarTabla_calls db_type tabla columnas (pre @ rs)
     = importarTabla_calls db_type tabla columnas pre @ importarTabla_calls db_type tabla columnas rs"
proof (induction pre)
  case Nil
  show ?case by simp
next
  case (Cons p pre)
  then show ?case by (cases p) simp_all
qed



















end
